theory Spec2Isabelle
  imports Main
begin

section \<open>Serialized values\<close>

text \<open>
  The conversation buffer and the function registry of the node are Python lists of
  dictionaries (\<open>list[dict[str, any]]\<close>). A dictionary is kept as an association list from
  key to value, in the order of the fields of the model it was serialized from; a key that
  is not in the list is absent from the dictionary.
\<close>

datatype json = JNull | JStr string | JObj "(string \<times> json) list"

type_synonym pydict = "(string \<times> json) list"

text \<open>One optional field under \<open>exclude_none=True\<close>: a field that is None gives no key.\<close>

definition field_excl :: "string \<Rightarrow> json option \<Rightarrow> pydict" where
  "field_excl k v = (case v of None \<Rightarrow> [] | Some x \<Rightarrow> [(k, x)])"

text \<open>One field without \<open>exclude_none\<close>: a field that is None gives the key with a null.\<close>

definition field_incl :: "string \<times> json option \<Rightarrow> string \<times> json" where
  "field_incl kv = (fst kv, case snd kv of None \<Rightarrow> JNull | Some x \<Rightarrow> x)"

section \<open>The typed models of \<open>openai_model.py\<close>\<close>

text \<open>
  Modelled from the spec: the class \<open>Message\<close> is declared in \<open>openai_model.py\<close>, which is
  imported by \<open>openai.py\<close> and is not among the sources. The data model gives it a role
  (a string), an optional content, an optional name and an optional structured
  function-call payload; the payload is kept in its serialized form.
\<close>

record Message =
  role :: string
  content :: "string option"
  name :: "string option"
  function_call :: "json option"

text \<open>\<open>Message.dict(exclude_none=True)\<close>.\<close>

definition message_dict :: "Message \<Rightarrow> pydict" where
  "message_dict m =
     [(''role'', JStr (role m))]
     @ field_excl ''content'' (map_option JStr (content m))
     @ field_excl ''name'' (map_option JStr (name m))
     @ field_excl ''function_call'' (function_call m)"

text \<open>
  Modelled from the spec: the delta of a streaming response, declared in
  \<open>openai_model.py\<close>, carries partial message fields: each of the four fields of a message,
  every one of them optional.
\<close>

record Delta =
  d_role :: "string option"
  d_content :: "string option"
  d_name :: "string option"
  d_function_call :: "json option"

text \<open>\<open>resp.delta.dict(exclude_none=True)\<close>.\<close>

definition delta_dict :: "Delta \<Rightarrow> pydict" where
  "delta_dict d =
     field_excl ''role'' (map_option JStr (d_role d))
     @ field_excl ''content'' (map_option JStr (d_content d))
     @ field_excl ''name'' (map_option JStr (d_name d))
     @ field_excl ''function_call'' (d_function_call d)"

text \<open>
  Modelled from the spec: \<open>FunctionDefinition\<close> and its redefined \<open>dict()\<close> are declared in
  \<open>openai_model.py\<close>. A definition is a sequence of named fields, each present or absent;
  it is serialized with all its fields, an absent one as a null.
\<close>

type_synonym FunctionDefinition = "(string \<times> json option) list"

definition function_dict :: "FunctionDefinition \<Rightarrow> pydict" where
  "function_dict fd = map field_incl fd"

text \<open>
  Modelled from the spec: the configuration bundle shared by every request
  (\<open>ChatConfig\<close>, declared in \<open>openai_model.py\<close>).
\<close>

record ChatConfig =
  model :: string
  append_history :: bool
  use_streaming :: bool

text \<open>
  Modelled from the spec: the two response shapes of \<open>openai_model.py\<close>. The gateway
  returns one or the other (\<open>OpenAIResp | OpenAIStreamingResp\<close>).
\<close>

record OpenAIResp =
  message :: Message
  finish_reason :: string

record OpenAIStreamingResp =
  delta :: Delta

datatype resp = NonStreaming OpenAIResp | Streaming OpenAIStreamingResp

section \<open>Exceptions and the external collaborators\<close>

text \<open>
  An exception is its class name and the text \<open>str(e)\<close> gives. A call that may raise
  returns a sum, the exception on the left.
\<close>

datatype exn = Exn (cls: string) (str: string)

definition IndexError :: exn where
  "IndexError = Exn ''IndexError'' ''list index out of range''"

definition ValidationError :: exn where
  "ValidationError = Exn ''ValidationError'' ''validation error''"

definition AttributeError :: exn where
  "AttributeError = Exn ''AttributeError'' ''generator object has no attribute choices''"

text \<open>
  One entry of \<open>response.choices\<close> as the vendor sends it: a dictionary that may hold a
  message, a delta and a finish reason.
\<close>

record choice =
  c_message :: "Message option"
  c_delta :: "Delta option"
  c_finish_reason :: "string option"

text \<open>
  Modelled from the spec: \<open>OpenAIResp(**choice)\<close> needs a message and a finish reason,
  \<open>OpenAIStreamingResp(**choice)\<close> needs a delta; the constructors are declared in
  \<open>openai_model.py\<close> and raise a validation error on a choice that lacks them.
\<close>

definition parse_resp :: "choice \<Rightarrow> exn + OpenAIResp" where
  "parse_resp c =
     (case (c_message c, c_finish_reason c) of
        (Some m, Some f) \<Rightarrow> Inr \<lparr>message = m, finish_reason = f\<rparr>
      | _ \<Rightarrow> Inl ValidationError)"

definition parse_streaming :: "choice \<Rightarrow> exn + OpenAIStreamingResp" where
  "parse_streaming c =
     (case c_delta c of
        Some d \<Rightarrow> Inr \<lparr>delta = d\<rparr>
      | None \<Rightarrow> Inl ValidationError)"

text \<open>
  What the vendor call returns: a completion object, which has \<open>choices\<close>, or, as the
  vendor library does for a request with \<open>stream=True\<close>, a generator of chunks, which
  has no attribute \<open>choices\<close>.
\<close>

datatype response = Completion "choice list" | ChunkStream "choice list"

text \<open>\<open>response.choices\<close>.\<close>

definition response_choices :: "response \<Rightarrow> exn + choice list" where
  "response_choices r =
     (case r of
        Completion cs \<Rightarrow> Inr cs
      | ChunkStream _ \<Rightarrow> Inl AttributeError)"

text \<open>The keyword arguments of the vendor call: a dictionary from argument name to value.\<close>

datatype kwval = VStr string | VBool bool | VList "pydict list"

type_synonym kwargs = "string \<rightharpoonup> kwval"

text \<open>
  \<open>tt.trim(cur_messages, input.model)\<close> and \<open>openai.ChatCompletion.create(**kwargs)\<close> are
  external: they are parameters of the gateway.

  The trim is handed the list \<open>cur_messages\<close>. That list is fresh, but
  \<open>cur_messages += self.history\<close> copies references: its leading entries are the very
  dictionaries the buffer holds, and an edit the trim makes in place to one of them is an
  edit of the buffer's entry. So the trim gives two things: the contents of the
  dictionaries of \<open>cur_messages\<close>, in order, as its call leaves them, and the window it
  returns or the exception it raises.

  The vendor call receives the keyword arguments and returns its response or raises; it
  is taken to leave its arguments alone.
\<close>

type_synonym trim_fn = "pydict list \<Rightarrow> string \<Rightarrow> pydict list \<times> (exn + pydict list)"

type_synonym create_fn = "kwargs \<Rightarrow> exn + response"

text \<open>The calls a gateway call makes to them, with their arguments.\<close>

datatype call = TrimCall "pydict list" string | CreateCall kwargs

section \<open>The node\<close>

text \<open>
  The attributes of the node. The registry \<open>self.functions\<close> is the field
  \<open>node_functions\<close>.
\<close>

record OpenAINode =
  history :: "pydict list"
  node_functions :: "pydict list"
  cur_role :: "string option"
  cur_content :: "string option"

text \<open>\<open>__init__\<close>.\<close>

definition init :: OpenAINode where
  "init = \<lparr>history = [], node_functions = [], cur_role = None, cur_content = None\<rparr>"

text \<open>\<open>add_function\<close>.\<close>

definition add_function :: "FunctionDefinition \<Rightarrow> OpenAINode \<Rightarrow> OpenAINode" where
  "add_function func_def self = self\<lparr>node_functions := node_functions self @ [function_dict func_def]\<rparr>"

text \<open>
  \<open>add_single_message\<close>: a pending accumulator with both fields set is appended and reset
  first, then the message is appended.
\<close>

definition add_single_message :: "Message \<Rightarrow> OpenAINode \<Rightarrow> OpenAINode" where
  "add_single_message msg self =
     (let self1 =
        (case (cur_role self, cur_content self) of
           (Some r, Some c) \<Rightarrow>
             self\<lparr>history := history self
                      @ [message_dict \<lparr>role = r, content = Some c, name = None,
                                        function_call = None\<rparr>],
                  cur_role := None, cur_content := None\<rparr>
         | _ \<Rightarrow> self)
      in self1\<lparr>history := history self1 @ [message_dict msg]\<rparr>)"

text \<open>\<open>add_system_message\<close>.\<close>

definition add_system_message :: "string \<Rightarrow> OpenAINode \<Rightarrow> OpenAINode" where
  "add_system_message c self =
     add_single_message \<lparr>role = ''system'', content = Some c, name = None,
                         function_call = None\<rparr> self"

text \<open>
  \<open>add_role\<close>: with both fields set, the pending message is passed to
  \<open>add_single_message\<close>; then the role is set.
\<close>

definition add_role :: "string \<Rightarrow> OpenAINode \<Rightarrow> OpenAINode" where
  "add_role r self =
     (let self1 =
        (case (cur_role self, cur_content self) of
           (Some r0, Some c0) \<Rightarrow>
             add_single_message \<lparr>role = r0, content = Some c0, name = None,
                                 function_call = None\<rparr> self
         | _ \<Rightarrow> self)
      in self1\<lparr>cur_role := Some r\<rparr>)"

text \<open>\<open>add_content\<close>.\<close>

definition add_content :: "string \<Rightarrow> OpenAINode \<Rightarrow> OpenAINode" where
  "add_content c self =
     (case cur_content self of
        Some c0 \<Rightarrow> self\<lparr>cur_content := Some (c0 @ c)\<rparr>
      | None \<Rightarrow> self\<lparr>cur_content := Some c\<rparr>)"

section \<open>The completion gateway\<close>

definition default_system_message :: Message where
  "default_system_message =
     \<lparr>role = ''system'',
      content = Some ''You are a helpful AI assistant. You should answer the user's questions and help them with their tasks.'',
      name = None, function_call = None\<rparr>"

text \<open>
  The window \<open>cur_messages\<close> as it is handed to the trim: a fresh list, seeded with the
  default system message when the history is empty and with the entries of the history
  otherwise (read before any new message is committed), then the new messages, each
  serialized anew.
\<close>

definition outgoing_window :: "Message list \<Rightarrow> OpenAINode \<Rightarrow> pydict list" where
  "outgoing_window messages self =
     (let cur_messages =
        (if length (history self) = 0 then [] @ [message_dict default_system_message]
         else [] @ history self)
      in cur_messages @ map message_dict messages)"

text \<open>The loop that commits the new messages when \<open>append_history\<close> is set.\<close>

definition commit_messages :: "Message list \<Rightarrow> ChatConfig \<Rightarrow> OpenAINode \<Rightarrow> OpenAINode" where
  "commit_messages messages input self =
     (if append_history input then foldl (\<lambda>s m. add_single_message m s) self messages
      else self)"

text \<open>The keyword arguments, from the trimmed window \<open>w\<close>.\<close>

definition build_kwargs :: "pydict list \<Rightarrow> ChatConfig \<Rightarrow> OpenAINode \<Rightarrow> kwargs" where
  "build_kwargs w input self =
     (let kwargs = [''model'' \<mapsto> VStr (model input)];
          kwargs = kwargs(''messages'' \<mapsto> VList w);
          kwargs = (if length (node_functions self) > 0
                    then kwargs(''functions'' \<mapsto> VList (node_functions self),
                                ''function_call'' \<mapsto> VStr ''auto'')
                    else kwargs);
          kwargs = (if use_streaming input then kwargs(''stream'' \<mapsto> VBool True)
                    else kwargs)
      in kwargs)"

text \<open>The response synthesized when the vendor call raises.\<close>

definition error_resp :: "exn \<Rightarrow> OpenAIResp" where
  "error_resp e =
     \<lparr>message = \<lparr>role = ''system'', content = Some (''Error occurred: '' @ str e),
                  name = None, function_call = None\<rparr>,
      finish_reason = ''error''\<rparr>"

text \<open>
  The buffer \<open>h\<close> once the trim has run, \<open>n\<close> being the number of entries the buffer had
  when the window was built: these \<open>n\<close> entries are the first \<open>n\<close> dictionaries of the
  window, so each holds what the trim left in it (\<open>es\<close>, by position; a position \<open>es\<close> does
  not reach is untouched). The entries after them were serialized on their own, by
  \<open>add_single_message\<close>, and are not in the window.
\<close>

definition edit_shared :: "nat \<Rightarrow> pydict list \<Rightarrow> pydict list \<Rightarrow> pydict list" where
  "edit_shared n es h = take n es @ drop (min n (length es)) h"

text \<open>
  What a call of the gateway does: the value it returns or the exception that leaves it,
  the node as the call leaves it (what was committed or edited before an exception
  stays so), and the calls it made to the trim and to the vendor, in order.
\<close>

record outcome =
  returned :: "exn + resp"
  node :: OpenAINode
  calls :: "call list"

text \<open>\<open>_make_completion\<close>.\<close>

definition make_completion ::
  "trim_fn \<Rightarrow> create_fn \<Rightarrow> Message list \<Rightarrow> ChatConfig \<Rightarrow> OpenAINode \<Rightarrow> outcome" where
  "make_completion trim create messages input self =
     (let shared = length (history self);
          self1 = commit_messages messages input self;
          cur_messages = outgoing_window messages self;
          trimmed = trim cur_messages (model input);
          self2 = self1\<lparr>history := edit_shared shared (fst trimmed) (history self1)\<rparr>;
          log1 = [TrimCall cur_messages (model input)]
      in case snd trimmed of
           Inl e \<Rightarrow> \<lparr>returned = Inl e, node = self2, calls = log1\<rparr>
         | Inr w \<Rightarrow>
             (let kwargs = build_kwargs w input self2;
                  log2 = log1 @ [CreateCall kwargs]
              in case create kwargs of
                   Inl e \<Rightarrow>
                     \<lparr>returned = Inr (NonStreaming (error_resp e)), node = self2, calls = log2\<rparr>
                 | Inr response \<Rightarrow>
                     (case response_choices response of
                        Inl e \<Rightarrow> \<lparr>returned = Inl e, node = self2, calls = log2\<rparr>
                      | Inr [] \<Rightarrow> \<lparr>returned = Inl IndexError, node = self2, calls = log2\<rparr>
                      | Inr (c # _) \<Rightarrow>
                          if use_streaming input then
                            (case parse_streaming c of
                               Inl e \<Rightarrow> \<lparr>returned = Inl e, node = self2, calls = log2\<rparr>
                             | Inr r \<Rightarrow>
                                 \<lparr>returned = Inr (Streaming r),
                                  node = (if append_history input
                                          then self2\<lparr>history := history self2 @ [delta_dict (delta r)]\<rparr>
                                          else self2),
                                  calls = log2\<rparr>)
                          else
                            (case parse_resp c of
                               Inl e \<Rightarrow> \<lparr>returned = Inl e, node = self2, calls = log2\<rparr>
                             | Inr r \<Rightarrow>
                                 \<lparr>returned = Inr (NonStreaming r),
                                  node = (if append_history input
                                          then self2\<lparr>history := history self2 @ [message_dict (message r)]\<rparr>
                                          else self2),
                                  calls = log2\<rparr>))))"

text \<open>The public operations.\<close>

definition complete :: "trim_fn \<Rightarrow> create_fn \<Rightarrow> ChatConfig \<Rightarrow> OpenAINode \<Rightarrow> outcome" where
  "complete trim create input self = make_completion trim create [] input self"

definition chat_with_message ::
  "trim_fn \<Rightarrow> create_fn \<Rightarrow> Message \<Rightarrow> ChatConfig \<Rightarrow> OpenAINode \<Rightarrow> outcome" where
  "chat_with_message trim create m input self = make_completion trim create [m] input self"

definition chat_with_messages ::
  "trim_fn \<Rightarrow> create_fn \<Rightarrow> Message list \<Rightarrow> ChatConfig \<Rightarrow> OpenAINode \<Rightarrow> outcome" where
  "chat_with_messages trim create ms input self = make_completion trim create ms input self"

section \<open>Notions the properties are stated with\<close>

text \<open>
  The entry a pending accumulator is flushed as: one message when both its fields are set,
  nothing otherwise.
\<close>

definition pending_flush :: "OpenAINode \<Rightarrow> pydict list" where
  "pending_flush self =
     (case (cur_role self, cur_content self) of
        (Some r, Some c) \<Rightarrow>
          [message_dict \<lparr>role = r, content = Some c, name = None, function_call = None\<rparr>]
      | _ \<Rightarrow> [])"

text \<open>The entry a returned response is committed as.\<close>

definition resp_dict :: "resp \<Rightarrow> pydict" where
  "resp_dict r =
     (case r of
        NonStreaming x \<Rightarrow> message_dict (message x)
      | Streaming x \<Rightarrow> delta_dict (delta x))"

text \<open>A buffer entry in which both role and content are absent.\<close>

definition blank :: "pydict \<Rightarrow> bool" where
  "blank d = (map_of d ''role'' = None \<and> map_of d ''content'' = None)"

text \<open>Registering a list of function definitions, one call of \<open>add_function\<close> each.\<close>

definition register_all :: "FunctionDefinition list \<Rightarrow> OpenAINode \<Rightarrow> OpenAINode" where
  "register_all defs self = foldl (\<lambda>s fd. add_function fd s) self defs"

text \<open>
  Sample inputs. Two trims: one that drops and edits nothing, and one that, as the trim
  library does when not even the last message fits the budget, shortens the last
  dictionary of the window in place and returns it alone. Three vendors: one that raises,
  one that answers every request with a completion of one choice, and one that answers
  as the vendor library does, a streaming request with a generator and any other with a
  completion. Then a choice, a chunk, a delta, the configurations and two messages.
\<close>

abbreviation keep_all :: trim_fn where
  "keep_all \<equiv> (\<lambda>w m. (w, Inr w))"

abbreviation shorten :: "pydict \<Rightarrow> pydict" where
  "shorten d \<equiv> map (\<lambda>kv. if fst kv = ''content'' then (''content'', JStr ''...'') else kv) d"

abbreviation shorten_last :: trim_fn where
  "shorten_last \<equiv>
     (\<lambda>w m. if w = [] then (w, Inr w)
            else (butlast w @ [shorten (last w)], Inr [shorten (last w)]))"

abbreviation vendor_down :: create_fn where
  "vendor_down \<equiv> (\<lambda>kw. Inl (Exn ''APIError'' ''rate limit''))"

abbreviation vendor_says :: "choice \<Rightarrow> create_fn" where
  "vendor_says c \<equiv> (\<lambda>kw. Inr (Completion [c]))"


abbreviation reply_ok :: choice where
  "reply_ok \<equiv>
     \<lparr>c_message = Some \<lparr>role = ''assistant'', content = Some ''ok'', name = None,
                          function_call = None\<rparr>,
      c_delta = None, c_finish_reason = Some ''stop''\<rparr>"

abbreviation chunk :: "Delta \<Rightarrow> choice" where
  "chunk d \<equiv> \<lparr>c_message = None, c_delta = Some d, c_finish_reason = None\<rparr>"

abbreviation empty_delta :: Delta where
  "empty_delta \<equiv> \<lparr>d_role = None, d_content = None, d_name = None, d_function_call = None\<rparr>"

abbreviation cfg :: "bool \<Rightarrow> bool \<Rightarrow> ChatConfig" where
  "cfg a st \<equiv> \<lparr>model = ''gpt-4'', append_history = a, use_streaming = st\<rparr>"

abbreviation user_says :: "string \<Rightarrow> Message" where
  "user_says t \<equiv> \<lparr>role = ''user'', content = Some t, name = None, function_call = None\<rparr>"

abbreviation seed_dict :: pydict where
  "seed_dict \<equiv>
     [(''role'', JStr ''system''),
      (''content'', JStr ''You are a helpful AI assistant. You should answer the user's questions and help them with their tasks.'')]"

section \<open>Basic facts\<close>

lemma add_single_message_history:
  "history (add_single_message m s) = history s @ pending_flush s @ [message_dict m]"
  by (simp add: add_single_message_def pending_flush_def Let_def split: option.splits)

lemma add_single_message_functions:
  "node_functions (add_single_message m s) = node_functions s"
  by (simp add: add_single_message_def Let_def split: option.splits)

lemma add_single_message_pending:
  "pending_flush (add_single_message m s) = []"
  by (simp add: add_single_message_def pending_flush_def Let_def split: option.splits)

lemma pending_flush_length:
  "length (pending_flush s) = (if cur_role s \<noteq> None \<and> cur_content s \<noteq> None then 1 else 0)"
  by (simp add: pending_flush_def split: option.splits)

lemma commit_loop_history:
  "history (foldl (\<lambda>s m. add_single_message m s) s ms)
     = history s @ (if ms = [] then [] else pending_flush s) @ map message_dict ms"
proof (induction ms arbitrary: s)
  case Nil
  show ?case by simp
next
  case (Cons m ms)
  show ?case
    by (simp add: Cons.IH add_single_message_history add_single_message_pending)
qed

lemma commit_loop_functions:
  "node_functions (foldl (\<lambda>s m. add_single_message m s) s ms) = node_functions s"
  by (induction ms arbitrary: s) (simp_all add: add_single_message_functions)

lemma commit_messages_history:
  "history (commit_messages ms input s)
     = history s
       @ (if append_history input
          then (if ms = [] then [] else pending_flush s) @ map message_dict ms
          else [])"
  by (simp add: commit_messages_def commit_loop_history)

lemma commit_messages_functions:
  "node_functions (commit_messages ms input s) = node_functions s"
  by (simp add: commit_messages_def commit_loop_functions)

lemma commit_messages_off:
  "\<not> append_history input \<Longrightarrow> commit_messages ms input s = s"
  by (simp add: commit_messages_def)

text \<open>The keyword arguments read the registry of the node and nothing else of it.\<close>

lemma build_kwargs_history:
  "build_kwargs w input (s\<lparr>history := h\<rparr>) = build_kwargs w input s"
  by (simp add: build_kwargs_def Let_def)

lemma build_kwargs_messages: "build_kwargs w input s ''messages'' = Some (VList w)"
  by (simp add: build_kwargs_def Let_def)

lemma build_kwargs_functions:
  "build_kwargs w input s ''functions''
     = (if node_functions s = [] then None else Some (VList (node_functions s)))"
  by (simp add: build_kwargs_def Let_def)

lemma build_kwargs_function_call:
  "build_kwargs w input s ''function_call''
     = (if node_functions s = [] then None else Some (VStr ''auto''))"
  by (simp add: build_kwargs_def Let_def)


text \<open>Edits of the trim reach the entries the buffer had, and no other.\<close>

lemma edit_shared_append:
  "edit_shared (length h) es (h @ xs) = edit_shared (length h) es h @ xs"
  by (simp add: edit_shared_def)

lemma edit_shared_length: "length (edit_shared (length h) es h) = length h"
  by (simp add: edit_shared_def)

lemma edit_shared_same:
  assumes "take (length h) es = h"
  shows "edit_shared (length h) es h = h"
proof -
  have "length (take (length h) es) = length h" using assms by simp
  then have "length h \<le> length es" by simp
  then show ?thesis using assms by (simp add: edit_shared_def min_def)
qed

lemma edit_shared_empty: "edit_shared 0 es h = h"
  by (simp add: edit_shared_def)


lemma make_completion_calls:
  assumes "snd (trim (outgoing_window ms s) (model input)) = Inr w"
  shows "calls (make_completion trim create ms input s)
         = [TrimCall (outgoing_window ms s) (model input),
            CreateCall (build_kwargs w input (commit_messages ms input s))]"
  using assms
  by (simp add: make_completion_def Let_def build_kwargs_history
        split: sum.splits list.splits)

lemma make_completion_vendor_raises:
  assumes "snd (trim (outgoing_window ms s) (model input)) = Inr w"
    and "create (build_kwargs w input (commit_messages ms input s)) = Inl e"
  shows "returned (make_completion trim create ms input s) = Inr (NonStreaming (error_resp e))"
    and "node (make_completion trim create ms input s)
         = (commit_messages ms input s)
             \<lparr>history := edit_shared (length (history s))
                           (fst (trim (outgoing_window ms s) (model input)))
                           (history (commit_messages ms input s))\<rparr>"
  using assms by (simp_all add: make_completion_def Let_def build_kwargs_history)




lemma make_completion_off:
  assumes "\<not> append_history input"
  shows "node (make_completion trim create ms input s)
         = s\<lparr>history := edit_shared (length (history s))
                          (fst (trim (outgoing_window ms s) (model input))) (history s)\<rparr>"
  using assms
  by (simp add: make_completion_def Let_def commit_messages_off response_choices_def
        split: sum.splits list.splits response.splits)



lemma delta_dict_blank: "blank (delta_dict d) = (d_role d = None \<and> d_content d = None)"
  by (simp add: blank_def delta_dict_def field_excl_def split: option.splits)


lemma pending_flush_entry:
  "cur_role s = Some r0 \<Longrightarrow> cur_content s = Some c0
   \<Longrightarrow> pending_flush s = [[(''role'', JStr r0), (''content'', JStr c0)]]"
  by (simp add: pending_flush_def message_dict_def field_excl_def)

lemma register_all_functions:
  "node_functions (register_all defs s) = node_functions s @ map function_dict defs"
  unfolding register_all_def
  by (induction defs arbitrary: s) (simp_all add: add_function_def)

lemma function_dict_keys: "map fst (function_dict fd) = map fst fd"
  by (simp add: function_dict_def field_incl_def)

lemma seeded_window:
  "history s = [] \<Longrightarrow> outgoing_window ms s = seed_dict # map message_dict ms"
  by (simp add: outgoing_window_def Let_def message_dict_def default_system_message_def
        field_excl_def)

section \<open>The accumulator\<close>

text \<open>
  C1. Starting from an empty accumulator, the sequence begin role "user", content "a",
  content "b", begin role "assistant" should add exactly one message user/"ab" to the
  buffer. The code adds it twice: \<open>add_role\<close> hands the pending message to
  \<open>add_single_message\<close>, which appends the pending accumulator itself and then appends
  the message it was given.
\<close>

theorem accumulator_round_trip_appends_twice:
  "history (add_role ''assistant'' (add_content ''b'' (add_content ''a'' (add_role ''user'' init))))
     = [[(''role'', JStr ''user''), (''content'', JStr ''ab'')],
        [(''role'', JStr ''user''), (''content'', JStr ''ab'')]]"
  by (simp add: add_role_def add_content_def add_single_message_def init_def
        message_dict_def field_excl_def)




section \<open>The gateway and the buffer\<close>

text \<open>
  C2, as stated: with append-history set, every call with N new messages makes the buffer
  exactly N+1 entries longer. It fails when the vendor call raises (one new message, one
  entry more) and when the accumulator holds a role and a content (one new message, three
  entries more).
\<close>

theorem append_history_growth_counterexample:
  "length (history (node (make_completion keep_all vendor_down [user_says ''hi'']
                            (cfg True False) init)))
     = length (history init) + 1
   \<and> length (history (node (make_completion keep_all (vendor_says reply_ok) [user_says ''hi'']
                            (cfg True False) (add_content ''a'' (add_role ''user'' init)))))
     = length (history (add_content ''a'' (add_role ''user'' init))) + 3"
  by (simp add: make_completion_def commit_messages_def add_single_message_def
        add_role_def add_content_def init_def parse_resp_def response_choices_def
        edit_shared_def Let_def)

text \<open>
  C2, amended: with append-history set and a non-empty list of N new messages, a call
  whose trim and vendor call return and whose first choice has the shape asked for
  leaves in the buffer the entries it had (as the trim left them), then the pending
  message when the accumulator held both a role and a content, then the N new messages in
  order, then the response returned. With the accumulator not holding both, the buffer is
  exactly N+1 entries longer; and when the trim edited none of the entries the buffer
  had, these are as they were.
\<close>

theorem append_history_growth:
  assumes "ms \<noteq> []" and "append_history input"
    and "trim (outgoing_window ms s) (model input) = (es, Inr w)"
    and "create (build_kwargs w input (commit_messages ms input s)) = Inr (Completion (c # cs))"
    and "if use_streaming input then c_delta c \<noteq> None
         else c_message c \<noteq> None \<and> c_finish_reason c \<noteq> None"
  shows "\<exists>r. returned (make_completion trim create ms input s) = Inr r
           \<and> history (node (make_completion trim create ms input s))
               = edit_shared (length (history s)) es (history s)
                 @ pending_flush s @ map message_dict ms @ [resp_dict r]
           \<and> length (history (node (make_completion trim create ms input s)))
               = length (history s) + length (pending_flush s) + length ms + 1
           \<and> length (pending_flush s) = (if cur_role s \<noteq> None \<and> cur_content s \<noteq> None then 1 else 0)
           \<and> (take (length (history s)) es = history s \<longrightarrow>
                history (node (make_completion trim create ms input s))
                  = history s @ pending_flush s @ map message_dict ms @ [resp_dict r])"
proof -
  have hist: "edit_shared (length (history s)) es (history (commit_messages ms input s))
                = edit_shared (length (history s)) es (history s)
                  @ pending_flush s @ map message_dict ms"
    using assms(1,2) unfolding commit_messages_history by (simp add: edit_shared_append)
  have same: "take (length (history s)) es = history s
              \<longrightarrow> edit_shared (length (history s)) es (history s) = history s"
    by (simp add: edit_shared_same)
  show ?thesis
  proof (cases "use_streaming input")
    case True
    then obtain d where d: "c_delta c = Some d" using assms(5) by auto
    show ?thesis
      using True d assms(2,3,4) hist same
      by (simp add: make_completion_def Let_def parse_streaming_def resp_dict_def
            response_choices_def build_kwargs_history edit_shared_length pending_flush_length)
  next
    case False
    then obtain m f where mf: "c_message c = Some m" "c_finish_reason c = Some f"
      using assms(5) by auto
    show ?thesis
      using False mf assms(2,3,4) hist same
      by (simp add: make_completion_def Let_def parse_resp_def resp_dict_def
            response_choices_def build_kwargs_history edit_shared_length pending_flush_length)
  qed
qed

theorem append_history_growth_witness:
  "[user_says ''hi''] \<noteq> [] \<and> append_history (cfg True False)
   \<and> keep_all (outgoing_window [user_says ''hi''] init) (model (cfg True False))
       = (outgoing_window [user_says ''hi''] init, Inr (outgoing_window [user_says ''hi''] init))
   \<and> vendor_says reply_ok (build_kwargs (outgoing_window [user_says ''hi''] init) (cfg True False)
        (commit_messages [user_says ''hi''] (cfg True False) init))
       = Inr (Completion (reply_ok # []))
   \<and> c_message reply_ok \<noteq> None \<and> c_finish_reason reply_ok \<noteq> None
   \<and> take (length (history init)) (outgoing_window [user_says ''hi''] init) = history init
   \<and> length (history (node (make_completion keep_all (vendor_says reply_ok) [user_says ''hi'']
                              (cfg True False) init))) = 2"
  using append_history_growth [of "[user_says ''hi'']" "cfg True False" keep_all init
      "outgoing_window [user_says ''hi''] init" "outgoing_window [user_says ''hi''] init"
      "vendor_says reply_ok" reply_ok "[]"]
  by (auto simp: init_def pending_flush_def)

section \<open>A vendor call that raises\<close>

text \<open>
  C3. Whatever the input, when the vendor call raises an exception the gateway raises
  nothing: it returns a response of the non-streaming shape whose message has role
  "system", whose content is "Error occurred: " followed by the text of the exception,
  and whose finish reason is "error".
\<close>

theorem vendor_failure_is_reported:
  assumes "trim (outgoing_window ms s) (model input) = (es, Inr w)"
    and "create (build_kwargs w input (commit_messages ms input s)) = Inl e"
  shows "returned (make_completion trim create ms input s)
           = Inr (NonStreaming
               \<lparr>message = \<lparr>role = ''system'', content = Some (''Error occurred: '' @ str e),
                            name = None, function_call = None\<rparr>,
                finish_reason = ''error''\<rparr>)"
  using assms by (simp add: make_completion_def Let_def error_resp_def build_kwargs_history)

theorem vendor_failure_is_reported_witness:
  "keep_all (outgoing_window [user_says ''hi''] init) (model (cfg False False))
     = (outgoing_window [user_says ''hi''] init, Inr (outgoing_window [user_says ''hi''] init))
   \<and> vendor_down (build_kwargs (outgoing_window [user_says ''hi''] init) (cfg False False)
        (commit_messages [user_says ''hi''] (cfg False False) init))
     = Inl (Exn ''APIError'' ''rate limit'')
   \<and> returned (make_completion keep_all vendor_down [user_says ''hi''] (cfg False False) init)
     = Inr (NonStreaming
         \<lparr>message = \<lparr>role = ''system'', content = Some ''Error occurred: rate limit'',
                      name = None, function_call = None\<rparr>,
          finish_reason = ''error''\<rparr>)"
  using vendor_failure_is_reported [of keep_all "[user_says ''hi'']" init "cfg False False"
      "outgoing_window [user_says ''hi''] init" "outgoing_window [user_says ''hi''] init"
      vendor_down "Exn ''APIError'' ''rate limit''"]
  by simp

text \<open>
  C9. With append-history set, when the vendor call raises, the gateway returns the
  synthesized error response and leaves the node as the commit loop left it, but for
  what the trim edited in place: the buffer holds its former entries (as the trim left
  them), then the pending message if the loop flushed one, then the N new messages in
  order, and no response entry. Nothing is rolled back. When the trim edited none of the
  former entries, the node is exactly the node the commit loop left.
\<close>

theorem vendor_failure_keeps_commits:
  assumes "append_history input"
    and "trim (outgoing_window ms s) (model input) = (es, Inr w)"
    and "create (build_kwargs w input (commit_messages ms input s)) = Inl e"
  shows "returned (make_completion trim create ms input s) = Inr (NonStreaming (error_resp e))
         \<and> node (make_completion trim create ms input s)
           = (commit_messages ms input s)
               \<lparr>history := edit_shared (length (history s)) es (history s)
                            @ (if ms = [] then [] else pending_flush s) @ map message_dict ms\<rparr>
         \<and> history (node (make_completion trim create ms input s))
           = edit_shared (length (history s)) es (history s)
             @ (if ms = [] then [] else pending_flush s) @ map message_dict ms
         \<and> length (history (node (make_completion trim create ms input s)))
           = length (history s) + (if ms = [] then 0 else length (pending_flush s)) + length ms
         \<and> finish_reason (error_resp e) = ''error''
         \<and> (take (length (history s)) es = history s \<longrightarrow>
              node (make_completion trim create ms input s) = commit_messages ms input s
              \<and> history (node (make_completion trim create ms input s))
                = history s @ (if ms = [] then [] else pending_flush s) @ map message_dict ms)"
proof -
  have hist: "edit_shared (length (history s)) es (history (commit_messages ms input s))
                = edit_shared (length (history s)) es (history s)
                  @ (if ms = [] then [] else pending_flush s) @ map message_dict ms"
    using assms(1) unfolding commit_messages_history by (simp add: edit_shared_append)
  have ret: "returned (make_completion trim create ms input s) = Inr (NonStreaming (error_resp e))"
    and nd: "node (make_completion trim create ms input s)
         = (commit_messages ms input s)
             \<lparr>history := edit_shared (length (history s)) es
                           (history (commit_messages ms input s))\<rparr>"
    using make_completion_vendor_raises [of trim ms s input w create e] assms(2,3) by simp_all
  have same: "node (make_completion trim create ms input s) = commit_messages ms input s"
    if "take (length (history s)) es = history s"
  proof -
    have "edit_shared (length (history s)) es (history (commit_messages ms input s))
          = history (commit_messages ms input s)"
      unfolding hist using that assms(1)
      by (simp add: edit_shared_same commit_messages_history)
    then show ?thesis unfolding nd by simp
  qed
  show ?thesis
    using ret nd hist same assms(1)
    by (simp add: edit_shared_length error_resp_def edit_shared_same commit_messages_history)
qed

theorem vendor_failure_keeps_commits_witness:
  "append_history (cfg True False)
   \<and> keep_all (outgoing_window [user_says ''hi'', user_says ''there''] init) (model (cfg True False))
     = (outgoing_window [user_says ''hi'', user_says ''there''] init,
        Inr (outgoing_window [user_says ''hi'', user_says ''there''] init))
   \<and> vendor_down (build_kwargs (outgoing_window [user_says ''hi'', user_says ''there''] init)
        (cfg True False) (commit_messages [user_says ''hi'', user_says ''there''] (cfg True False) init))
     = Inl (Exn ''APIError'' ''rate limit'')
   \<and> take (length (history init)) (outgoing_window [user_says ''hi'', user_says ''there''] init)
     = history init
   \<and> history (node (make_completion keep_all vendor_down [user_says ''hi'', user_says ''there'']
                      (cfg True False) init))
     = [[(''role'', JStr ''user''), (''content'', JStr ''hi'')],
        [(''role'', JStr ''user''), (''content'', JStr ''there'')]]"
  using vendor_failure_keeps_commits [of "cfg True False" keep_all
      "[user_says ''hi'', user_says ''there'']" init
      "outgoing_window [user_says ''hi'', user_says ''there''] init"
      "outgoing_window [user_says ''hi'', user_says ''there''] init" vendor_down
      "Exn ''APIError'' ''rate limit''"]
  by (simp add: init_def pending_flush_def message_dict_def field_excl_def
        commit_messages_history edit_shared_empty)

text \<open>
  C10. With streaming asked for, a vendor call that raises gives the non-streaming shape,
  a message with finish reason "error". A response of the streaming shape is returned only
  when streaming was asked for, the trim and the vendor call returned, and the first
  choice carried the delta that the response holds.
\<close>

theorem streaming_shape_only_on_success:
  "(use_streaming input
      \<and> snd (trim (outgoing_window ms s) (model input)) = Inr w
      \<and> create (build_kwargs w input (commit_messages ms input s)) = Inl e
    \<longrightarrow> (\<exists>r. returned (make_completion trim create ms input s) = Inr (NonStreaming r)
            \<and> role (message r) = ''system'' \<and> finish_reason r = ''error''))
   \<and> (returned (make_completion trim create ms input s) = Inr (Streaming x)
    \<longrightarrow> use_streaming input
        \<and> (\<exists>w' c cs. snd (trim (outgoing_window ms s) (model input)) = Inr w'
              \<and> create (build_kwargs w' input (commit_messages ms input s))
                  = Inr (Completion (c # cs))
              \<and> c_delta c = Some (delta x)))"
  by (auto simp: make_completion_def Let_def error_resp_def parse_streaming_def parse_resp_def
        response_choices_def build_kwargs_history
        split: sum.splits list.splits option.splits if_splits response.splits)

theorem streaming_shape_only_on_success_witness:
  "use_streaming (cfg False True)
   \<and> snd (keep_all (outgoing_window [] init) (model (cfg False True)))
       = Inr (outgoing_window [] init)
   \<and> vendor_down (build_kwargs (outgoing_window [] init) (cfg False True)
        (commit_messages [] (cfg False True) init)) = Inl (Exn ''APIError'' ''rate limit'')
   \<and> (\<exists>r. returned (make_completion keep_all vendor_down [] (cfg False True) init)
            = Inr (NonStreaming r)
          \<and> finish_reason r = ''error'')
   \<and> returned (make_completion keep_all (vendor_says (chunk empty_delta)) [] (cfg False True) init)
       = Inr (Streaming \<lparr>delta = empty_delta\<rparr>)
   \<and> (\<exists>w' c cs. snd (keep_all (outgoing_window [] init) (model (cfg False True))) = Inr w'
          \<and> vendor_says (chunk empty_delta) (build_kwargs w' (cfg False True)
               (commit_messages [] (cfg False True) init)) = Inr (Completion (c # cs))
          \<and> c_delta c = Some empty_delta)"
  using streaming_shape_only_on_success [of "cfg False True" keep_all "[]" init
      "outgoing_window [] init" vendor_down "Exn ''APIError'' ''rate limit''" "\<lparr>delta = empty_delta\<rparr>"]
    streaming_shape_only_on_success [of "cfg False True" keep_all "[]" init
      "outgoing_window [] init" "vendor_says (chunk empty_delta)" "Exn ''APIError'' ''rate limit''"
      "\<lparr>delta = empty_delta\<rparr>"]
  by (simp add: make_completion_def Let_def parse_streaming_def response_choices_def)

section \<open>The window and the stored buffer\<close>



text \<open>
  C8. Building the window should never change the stored buffer. The code builds the
  window as a fresh list, but out of the dictionaries the buffer holds, and hands them to
  the trim: when the trim shortens one in place, the entry of the buffer is shortened
  with it. Here the buffer holds one user message; a call without append-history, whose
  trim shortens the last message of the window in place, leaves the buffer with the
  shortened entry.
\<close>

theorem trim_edit_reaches_buffer:
  "history (add_single_message (user_says ''a long question'') init)
     = [[(''role'', JStr ''user''), (''content'', JStr ''a long question'')]]
   \<and> history (node (make_completion shorten_last (vendor_says reply_ok) [] (cfg False False)
                      (add_single_message (user_says ''a long question'') init)))
     = [[(''role'', JStr ''user''), (''content'', JStr ''...'')]]"
  by (simp add: make_completion_def Let_def commit_messages_def outgoing_window_def
        add_single_message_def init_def message_dict_def field_excl_def edit_shared_def
        response_choices_def parse_resp_def)

section \<open>The function registry\<close>

text \<open>
  C5. On a node whose registry is empty, after registering N definitions, a completion
  call whose trim returns calls the vendor once, after the trim, and what it does with the
  keyword arguments of that call is what the gateway returns for a raising vendor. For N
  at least 1 the keyword arguments hold under "functions" the list of the N serialized
  definitions, in order of registration, each with every one of its fields (an absent
  field as a null), and under "function_call" the string "auto". With no definition
  registered, neither key is in the keyword arguments.
\<close>

theorem registry_attached_to_request:
  assumes "node_functions s = []"
    and "snd (trim (outgoing_window ms (register_all defs s)) (model input)) = Inr w"
  shows "\<exists>kw. calls (make_completion trim create ms input (register_all defs s))
                = [TrimCall (outgoing_window ms (register_all defs s)) (model input),
                   CreateCall kw]
           \<and> kw ''messages'' = Some (VList w)
           \<and> (defs \<noteq> [] \<longrightarrow>
                kw ''functions'' = Some (VList (map function_dict defs))
                \<and> length (map function_dict defs) = length defs
                \<and> (\<forall>fd \<in> set defs. map fst (function_dict fd) = map fst fd)
                \<and> kw ''function_call'' = Some (VStr ''auto''))
           \<and> (defs = [] \<longrightarrow> kw ''functions'' = None \<and> kw ''function_call'' = None)
           \<and> (\<forall>e. create kw = Inl e \<longrightarrow>
                returned (make_completion trim create ms input (register_all defs s))
                  = Inr (NonStreaming (error_resp e)))"
proof -
  let ?s = "register_all defs s"
  let ?kw = "build_kwargs w input (commit_messages ms input ?s)"
  have c: "calls (make_completion trim create ms input ?s)
             = [TrimCall (outgoing_window ms ?s) (model input), CreateCall ?kw]"
    using make_completion_calls [of trim ms ?s input w create] assms(2) by simp
  have r: "returned (make_completion trim create ms input ?s) = Inr (NonStreaming (error_resp e))"
    if "create ?kw = Inl e" for e
    using make_completion_vendor_raises(1) [of trim ms ?s input w create e] assms(2) that
    by simp
  show ?thesis
    using c r
    by (intro exI[of _ ?kw])
      (simp add: build_kwargs_messages build_kwargs_functions build_kwargs_function_call
         commit_messages_functions register_all_functions assms(1) function_dict_keys)
qed

theorem registry_attached_to_request_witness:
  "node_functions init = []
   \<and> snd (keep_all (outgoing_window []
             (register_all [[(''name'', Some (JStr ''lookup'')), (''description'', None)]] init))
           (model (cfg False False)))
     = Inr [seed_dict]
   \<and> (\<exists>kw. calls (make_completion keep_all vendor_down [] (cfg False False)
                     (register_all [[(''name'', Some (JStr ''lookup'')), (''description'', None)]]
                        init))
             = [TrimCall [seed_dict] ''gpt-4'', CreateCall kw]
           \<and> kw ''messages'' = Some (VList [seed_dict])
           \<and> kw ''functions'' = Some (VList [[(''name'', JStr ''lookup''), (''description'', JNull)]])
           \<and> kw ''function_call'' = Some (VStr ''auto'')
           \<and> vendor_down kw = Inl (Exn ''APIError'' ''rate limit''))
   \<and> returned (make_completion keep_all vendor_down [] (cfg False False)
                 (register_all [[(''name'', Some (JStr ''lookup'')), (''description'', None)]] init))
     = Inr (NonStreaming (error_resp (Exn ''APIError'' ''rate limit'')))
   \<and> (\<exists>kw. calls (make_completion keep_all vendor_down [] (cfg False False)
                     (register_all [] init))
             = [TrimCall [seed_dict] ''gpt-4'', CreateCall kw]
           \<and> kw ''functions'' = None \<and> kw ''function_call'' = None)"
proof -
  have w: "outgoing_window [] (register_all defs init) = [seed_dict]" for defs
    by (rule seeded_window [of "register_all defs init" "[]", simplified])
      (induction defs rule: rev_induct, simp_all add: register_all_def add_function_def init_def)
  show ?thesis
    using registry_attached_to_request [of init keep_all "[]"
        "[[(''name'', Some (JStr ''lookup'')), (''description'', None)]]" "cfg False False"
        "[seed_dict]" vendor_down]
      registry_attached_to_request [of init keep_all "[]" "[]" "cfg False False"
        "[seed_dict]" vendor_down]
    unfolding w
    by (auto simp: init_def function_dict_def field_incl_def)
qed

section \<open>Entries without role and content\<close>




end
